theory Spec2Isabelle
  imports Complex_Main
begin

section \<open>Strings as the chunker uses them\<close>

text \<open>
  JavaScript strings are modelled as \<open>string\<close> (a list of characters); \<open>text.length\<close> is
  \<open>length\<close>. A character of the model is a UTF-16 code unit below 256 (ASCII and
  Latin-1). Indices are natural numbers, except where the source produces \<open>-1\<close>
  (\<open>lastIndexOf\<close>), which is an \<open>int\<close>.
\<close>

text \<open>\<open>String.prototype.slice(a, b)\<close> for non-negative arguments: the characters at the
  indices \<open>a \<le> i < b\<close>, clamped to the string, empty when \<open>b \<le> a\<close>.\<close>

definition slice :: "string \<Rightarrow> nat \<Rightarrow> nat \<Rightarrow> string" where
  "slice s a b = take (b - a) (drop a s)"

text \<open>\<open>String.prototype.lastIndexOf(ch)\<close>: the largest index holding \<open>ch\<close>, or \<open>-1\<close>.\<close>

fun lastIndexOf_from :: "nat \<Rightarrow> string \<Rightarrow> char \<Rightarrow> int" where
  "lastIndexOf_from i [] ch = -1"
| "lastIndexOf_from i (x # xs) ch =
     (let r = lastIndexOf_from (Suc i) xs ch
      in if r \<noteq> -1 then r else if x = ch then int i else -1)"

definition lastIndexOf :: "string \<Rightarrow> char \<Rightarrow> int" where
  "lastIndexOf s ch = lastIndexOf_from 0 s ch"

text \<open>The white space \<open>String.prototype.trim\<close> strips, among the code units below 256:
  tab, line feed, vertical tab, form feed, carriage return, space and the no-break space
  U+00A0.\<close>

definition is_space :: "char \<Rightarrow> bool" where
  "is_space ch =
     (ch \<in> set [CHR 0x09, CHR 0x0A, CHR 0x0B, CHR 0x0C, CHR 0x0D, CHR '' '', CHR 0xA0])"

definition trim :: "string \<Rightarrow> string" where
  "trim s = rev (dropWhile is_space (rev (dropWhile is_space s)))"

text \<open>\<open>String.prototype.toLowerCase\<close> on the code units below 256: the letters \<open>A\<close> to
  \<open>Z\<close> and the Latin-1 capitals U+00C0 to U+00DE (the multiplication sign U+00D7 is no
  letter) move up by 32.\<close>

definition toLowerCase_char :: "char \<Rightarrow> char" where
  "toLowerCase_char ch =
     (let n = (of_char ch :: nat)
      in if (65 \<le> n \<and> n \<le> 90) \<or> (192 \<le> n \<and> n \<le> 222 \<and> n \<noteq> 215)
         then char_of (n + 32) else ch)"

definition toLowerCase :: "string \<Rightarrow> string" where
  "toLowerCase s = map toLowerCase_char s"

text \<open>\<open>Math.max(...xs)\<close> on a non-empty list of integers (the source calls it only when
  \<open>breakPoints.length > 0\<close>).\<close>

fun Math_max :: "int list \<Rightarrow> int" where
  "Math_max [] = 0"
| "Math_max [x] = x"
| "Math_max (x # y # ys) = max x (Math_max (y # ys))"

section \<open>The chunker: \<open>createTextChunks\<close>\<close>

text \<open>
  \<open>createTextChunks(text, chunkSize, overlap, metadata)\<close> of the document parser, and the
  identical loop of \<open>parsePDFChunks\<close>. \<open>chunkSize\<close> and \<open>overlap\<close> are natural numbers
  (the contract of the chunker: \<open>chunkSize > 0\<close>, \<open>overlap \<ge> 0\<close>). The comparison
  \<open>point > startIndex + chunkSize * 0.7\<close> is taken over the reals: the rounding of the
  double product \<open>chunkSize * 0.7\<close> is not modelled.
\<close>

record text_chunk =
  chunk_text :: string
  chunk_startIndex :: nat
  chunk_length :: nat

text \<open>The candidate break points of one window: \<open>chunk\<close> is the window
  \<open>text.slice(startIndex, endIndex)\<close>, so every \<open>lastIndexOf\<close> is an index into the window,
  and the filter compares it with \<open>startIndex + chunkSize * 0.7\<close>.\<close>

definition breakPoints :: "string \<Rightarrow> nat \<Rightarrow> nat \<Rightarrow> int list" where
  "breakPoints chunk startIndex chunkSize =
     (let lastPeriod = lastIndexOf chunk CHR ''.'';
          lastQuestion = lastIndexOf chunk CHR ''?'';
          lastExclamation = lastIndexOf chunk CHR ''!'';
          lastNewline = lastIndexOf chunk CHR 0x0A
      in filter (\<lambda>point. real_of_int point > real startIndex + real chunkSize * 0.7)
           [lastPeriod, lastQuestion, lastExclamation, lastNewline])"

text \<open>The cut of one iteration (lines 224 to 246): the chunk before trimming and the new
  \<open>startIndex\<close>, before the overlap is applied.\<close>

definition cut :: "string \<Rightarrow> nat \<Rightarrow> nat \<Rightarrow> string \<times> nat" where
  "cut txt chunkSize startIndex =
     (let endIndex = min (startIndex + chunkSize) (length txt);
          chunk = slice txt startIndex endIndex
      in if endIndex < length txt then
           (let bps = breakPoints chunk startIndex chunkSize
            in if length bps > 0 then
                 (let bestBreak = Math_max bps
                  in (slice txt startIndex (nat (bestBreak + 1)), nat (bestBreak + 1)))
               else (chunk, endIndex))
         else (chunk, endIndex))"

text \<open>One iteration of the \<open>while\<close> loop: cut, trim, push the chunk when it is not empty
  (with the \<open>startIndex\<close> already moved to the cut), apply the overlap.\<close>

definition loop_body :: "string \<Rightarrow> nat \<Rightarrow> nat \<Rightarrow> nat \<Rightarrow> text_chunk list \<Rightarrow> nat \<times> text_chunk list" where
  "loop_body txt chunkSize overlap startIndex chunks =
     (let (chunk0, startIndex1) = cut txt chunkSize startIndex;
          chunk = trim chunk0;
          chunks1 = (if length chunk > 0
                     then chunks @ [\<lparr>chunk_text = chunk, chunk_startIndex = startIndex1,
                                      chunk_length = length chunk\<rparr>]
                     else chunks);
          startIndex2 = (if startIndex1 < length txt
                         then nat (max 0 (int startIndex1 - int overlap))
                         else startIndex1)
      in (startIndex2, chunks1))"

text \<open>The loop itself. It may run forever, so it is a partial function: \<open>None\<close> is the run
  that never leaves the loop.\<close>

partial_function (option) chunk_loop ::
  "string \<Rightarrow> nat \<Rightarrow> nat \<Rightarrow> nat \<Rightarrow> text_chunk list \<Rightarrow> text_chunk list option" where
  "chunk_loop txt chunkSize overlap startIndex chunks =
     (if startIndex < length txt
      then (case loop_body txt chunkSize overlap startIndex chunks of
              (startIndex', chunks') \<Rightarrow> chunk_loop txt chunkSize overlap startIndex' chunks')
      else Some chunks)"

declare chunk_loop.simps [code]

record 'm chunk_result =
  success :: bool
  chunks :: "text_chunk list"
  totalChunks :: nat
  originalText :: string
  metadata :: 'm

definition createTextChunks :: "string \<Rightarrow> nat \<Rightarrow> nat \<Rightarrow> 'm \<Rightarrow> 'm chunk_result option" where
  "createTextChunks txt chunkSize overlap meta =
     map_option (\<lambda>cs. \<lparr>success = True, chunks = cs, totalChunks = length cs,
                        originalText = txt, metadata = meta\<rparr>)
       (chunk_loop txt chunkSize overlap 0 [])"

text \<open>The cut the chunker's contract describes, written from its words for comparison with
  \<open>cut\<close>: when the window does not reach the end of the text, the rightmost of
  \<open>.\<close>, \<open>?\<close>, \<open>!\<close> and newline in the last 30% of the window (window index above
  \<open>chunkSize * 0.7\<close>) ends the chunk, that character included; otherwise the chunk ends at
  the hard boundary.\<close>

definition is_boundary :: "char \<Rightarrow> bool" where
  "is_boundary ch = (ch \<in> set [CHR ''.'', CHR ''?'', CHR ''!'', CHR 0x0A])"

definition spec_cut :: "string \<Rightarrow> nat \<Rightarrow> nat \<Rightarrow> string \<times> nat" where
  "spec_cut txt chunkSize startIndex =
     (let endIndex = min (startIndex + chunkSize) (length txt);
          window = slice txt startIndex endIndex
      in if endIndex < length txt then
           (case filter (\<lambda>i. is_boundary (window ! i) \<and> real i > real chunkSize * 0.7)
                   (rev [0..<length window]) of
              [] \<Rightarrow> (window, endIndex)
            | i # _ \<Rightarrow> (slice txt startIndex (startIndex + i + 1), startIndex + i + 1))
         else (window, endIndex))"

subsection \<open>The chunks as \<open>parseDocumentChunks\<close> returns them\<close>

text \<open>
  \<open>parseDocumentChunks\<close> adds to every chunk a fresh \<open>uuidv4()\<close>, the file's name, its
  type in lower case, its size, the chunk's index and the current date. The environment supplies the identifiers and the
  clock readings: \<open>uuidv4 env i\<close> and \<open>date env i\<close> are what the \<open>i\<close>-th call returns.
  The text is the one \<open>parseText\<close>, \<open>parseMarkdown\<close> or \<open>parsePDF\<close> extracted from the
  buffer (decoding is outside this model).
\<close>

record environment =
  uuidv4 :: "nat \<Rightarrow> string"
  date :: "nat \<Rightarrow> string"

record enriched_chunk = text_chunk +
  chunk_id :: string
  chunk_filename :: string
  chunk_fileType :: string
  chunk_chunkIndex :: nat
  chunk_uploadDate :: string
  chunk_fileSize :: nat

definition enrichedChunks ::
  "environment \<Rightarrow> string \<Rightarrow> string \<Rightarrow> nat \<Rightarrow> text_chunk list \<Rightarrow> enriched_chunk list" where
  "enrichedChunks env filename fileType fileSize cs =
     map (\<lambda>(chunk, index).
            \<lparr>chunk_text = chunk_text chunk, chunk_startIndex = chunk_startIndex chunk,
             chunk_length = chunk_length chunk,
             chunk_id = uuidv4 env index, chunk_filename = filename,
             chunk_fileType = toLowerCase fileType, chunk_chunkIndex = index,
             chunk_uploadDate = date env index, chunk_fileSize = fileSize\<rparr>)
         (zip cs [0..<length cs])"

definition parseDocumentChunks ::
  "environment \<Rightarrow> string \<Rightarrow> string \<Rightarrow> string \<Rightarrow> nat \<Rightarrow> nat \<Rightarrow> nat \<Rightarrow>
     enriched_chunk list option" where
  "parseDocumentChunks env txt filename fileType fileSize chunkSize overlap =
     map_option (\<lambda>chunkResult. enrichedChunks env filename fileType fileSize (chunks chunkResult))
       (createTextChunks txt chunkSize overlap ())"

text \<open>The boundaries and the text of a chunk: what two runs are compared on.\<close>

definition boundaries :: "enriched_chunk \<Rightarrow> string \<times> nat \<times> nat" where
  "boundaries c = (chunk_text c, chunk_startIndex c, chunk_length c)"

section \<open>Numbers and their decimal form\<close>

text \<open>The decimal form of an integer, as a template literal prints it.\<close>

fun show_nat :: "nat \<Rightarrow> string" where
  "show_nat n = (if n < 10 then [''0123456789'' ! n]
                 else show_nat (n div 10) @ [''0123456789'' ! (n mod 10)])"

declare show_nat.simps [simp del]

definition show_int :: "int \<Rightarrow> string" where
  "show_int i = (if i < 0 then CHR ''-'' # show_nat (nat (- i)) else show_nat (nat i))"

subsection \<open>Double arithmetic\<close>

text \<open>
  JavaScript numbers are IEEE 754 doubles. Their arithmetic is not defined here: a
  function that computes with doubles takes the operations it uses as a parameter, a
  record over the type \<open>'d\<close> of the numbers. What is proved of such a function for every
  record holds for the doubles' own operations, rounding, infinities and \<open>NaN\<close> included.
\<close>

text \<open>What \<open>similarity\<close> computes with: the literal \<open>0\<close>, \<open>+\<close>, \<open>*\<close>, \<open>Math.sqrt\<close>,
  \<open>/\<close>, and the two halves of the clamp, \<open>Math.min(1, x)\<close> and \<open>Math.max(0, x)\<close>.\<close>

record 'd similarity_arithmetic =
  sim_zero :: 'd
  sim_add :: "'d \<Rightarrow> 'd \<Rightarrow> 'd"
  sim_mul :: "'d \<Rightarrow> 'd \<Rightarrow> 'd"
  sim_sqrt :: "'d \<Rightarrow> 'd"
  sim_div :: "'d \<Rightarrow> 'd \<Rightarrow> 'd"
  sim_min_1 :: "'d \<Rightarrow> 'd"
  sim_max_0 :: "'d \<Rightarrow> 'd"

text \<open>The two doubles \<open>+0\<close> and \<open>NaN\<close> on their own, with the doubles' operations: a sum or
  a product is \<open>NaN\<close> when an operand is, and \<open>+0\<close> otherwise; the square root keeps both;
  every quotient of the two is \<open>NaN\<close> (\<open>0 / 0\<close> too); \<open>Math.min(1, x)\<close> and
  \<open>Math.max(0, x)\<close> keep both.\<close>

datatype zero_or_nan = Zero | NaN

definition zero_nan_arithmetic :: "zero_or_nan similarity_arithmetic" where
  "zero_nan_arithmetic =
     \<lparr>sim_zero = Zero,
      sim_add = (\<lambda>a b. if a = NaN \<or> b = NaN then NaN else Zero),
      sim_mul = (\<lambda>a b. if a = NaN \<or> b = NaN then NaN else Zero),
      sim_sqrt = (\<lambda>a. a),
      sim_div = (\<lambda>a b. NaN),
      sim_min_1 = (\<lambda>a. a),
      sim_max_0 = (\<lambda>a. a)\<rparr>"

text \<open>What \<open>prepareContext\<close> computes with: numeric literals, the test \<open>x || ...\<close> makes
  of a number (\<open>0\<close>, \<open>-0\<close> and \<open>NaN\<close> are falsy), \<open>-\<close>, \<open>*\<close>, \<open>Math.round\<close> and the
  text a template literal prints for a number.\<close>

record 'd relevance_arithmetic =
  rel_literal :: "nat \<Rightarrow> 'd"
  rel_falsy :: "'d \<Rightarrow> bool"
  rel_sub :: "'d \<Rightarrow> 'd \<Rightarrow> 'd"
  rel_mul :: "'d \<Rightarrow> 'd \<Rightarrow> 'd"
  rel_round :: "'d \<Rightarrow> 'd"
  rel_toString :: "'d \<Rightarrow> string"

text \<open>The doubles that are integers: as long as no value exceeds \<open>2\<^sup>5\<^sup>3\<close> in magnitude
  their differences and products are the integers' own, \<open>Math.round\<close> leaves them as they
  are, only \<open>0\<close> is falsy, and a template literal prints their decimal form.\<close>

definition integer_arithmetic :: "int relevance_arithmetic" where
  "integer_arithmetic =
     \<lparr>rel_literal = int,
      rel_falsy = (\<lambda>x. x = 0),
      rel_sub = (\<lambda>a b. a - b),
      rel_mul = (\<lambda>a b. a * b),
      rel_round = (\<lambda>x. x),
      rel_toString = show_int\<rparr>"

section \<open>The embedder: \<open>embedText\<close>, \<open>embedBatch\<close>, \<open>similarity\<close>\<close>

text \<open>A value a caller may pass where a string is expected.\<close>

datatype jsval = JUndefined | JNumber int | JString string

fun truthy :: "jsval \<Rightarrow> bool" where
  "truthy JUndefined = False"
| "truthy (JNumber n) = (n \<noteq> 0)"
| "truthy (JString s) = (s \<noteq> [])"

text \<open>\<open>embedText\<close>: an error (its message) unless the text is a non-empty string. The
  feature vector itself is the parameter \<open>createSimpleEmbedding\<close>.\<close>

fun is_string :: "jsval \<Rightarrow> bool" where
  "is_string (JString s) = True"
| "is_string v = False"

definition embedText :: "(string \<Rightarrow> 'e) \<Rightarrow> jsval \<Rightarrow> string + 'e" where
  "embedText createSimpleEmbedding txt =
     (if \<not> truthy txt \<or> \<not> is_string txt then Inl ''Invalid text input for embedding''
      else (case txt of
              JString s \<Rightarrow> Inr (createSimpleEmbedding s)
            | _ \<Rightarrow> Inl ''Invalid text input for embedding''))"

text \<open>\<open>embedBatch\<close>: one entry per text, \<open>None\<close> (the source's \<open>null\<close>) where \<open>embedText\<close>
  failed.\<close>

definition embedBatch :: "(string \<Rightarrow> 'e) \<Rightarrow> jsval list \<Rightarrow> string + 'e option list" where
  "embedBatch createSimpleEmbedding texts =
     (if texts = [] then Inl ''Invalid texts array for batch embedding''
      else Inr (map (\<lambda>t. case embedText createSimpleEmbedding t of
                            Inr embedding \<Rightarrow> Some embedding
                          | Inl e \<Rightarrow> None) texts))"

text \<open>\<open>similarity(embedding1, embedding2)\<close>: an absent argument (\<open>undefined\<close> or \<open>null\<close>) is
  \<open>None\<close>; the loop accumulates the dot product and the two squared norms, in the
  arithmetic \<open>ar\<close>.\<close>

definition similarity ::
  "'d similarity_arithmetic \<Rightarrow> 'd list option \<Rightarrow> 'd list option \<Rightarrow> string + 'd" where
  "similarity ar embedding1 embedding2 =
     (case (embedding1, embedding2) of
        (Some e1, Some e2) \<Rightarrow>
          if length e1 \<noteq> length e2 then Inl ''Embeddings must have the same dimensions''
          else
            (let (dotProduct, norm1, norm2) =
                   fold (\<lambda>i (dotProduct, norm1, norm2).
                           (sim_add ar dotProduct (sim_mul ar (e1 ! i) (e2 ! i)),
                            sim_add ar norm1 (sim_mul ar (e1 ! i) (e1 ! i)),
                            sim_add ar norm2 (sim_mul ar (e2 ! i) (e2 ! i))))
                     [0..<length e1] (sim_zero ar, sim_zero ar, sim_zero ar)
             in Inr (sim_max_0 ar (sim_min_1 ar
                       (sim_div ar dotProduct
                          (sim_mul ar (sim_sqrt ar norm1) (sim_sqrt ar norm2))))))
      | _ \<Rightarrow> Inl ''Both embeddings are required for similarity calculation'')"

section \<open>The vector store client: \<open>addDocuments\<close>\<close>

record doc_metadata =
  md_filename :: "string option"

record 'e document =
  doc_id :: string
  doc_text :: jsval
  doc_embedding :: "'e option"
  doc_metadata :: doc_metadata

text \<open>\<open>addDocuments\<close>: \<open>collection_add\<close> is the call to the database, which returns nothing
  (\<open>None\<close>) or throws (\<open>Some\<close> the message).\<close>

definition addDocuments ::
  "('e document list \<Rightarrow> string option) \<Rightarrow> 'e document list \<Rightarrow> string + nat" where
  "addDocuments collection_add documents =
     (if documents = [] then Inl ''Invalid documents array''
      else
        (let valid = filter (\<lambda>doc. \<not> (doc_id doc = [] \<or> \<not> truthy (doc_text doc)
                                       \<or> doc_embedding doc = None)) documents
         in if valid = [] then Inl ''No valid documents to add''
            else (case collection_add valid of
                    Some e \<Rightarrow> Inl e
                  | None \<Rightarrow> Inr (length valid))))"

section \<open>The RAG service: \<open>prepareContext\<close> and \<open>addDocumentToKnowledgeBase\<close>\<close>

record 'd search_result =
  results :: "string list"
  metadatas :: "doc_metadata option list"
  distances :: "'d list"

text \<open>\<open>xs[i] || d\<close> for an array read that may be out of range or hold \<open>null\<close>.\<close>

definition nth_or :: "'a option list \<Rightarrow> nat \<Rightarrow> 'a \<Rightarrow> 'a" where
  "nth_or xs i d = (if i < length xs then (case xs ! i of Some x \<Rightarrow> x | None \<Rightarrow> d) else d)"

text \<open>\<open>distances[index] || 0\<close>: the literal \<open>0\<close> when the read is out of range or the
  number read is falsy.\<close>

definition distance_or_0 :: "'d relevance_arithmetic \<Rightarrow> 'd list \<Rightarrow> nat \<Rightarrow> 'd" where
  "distance_or_0 ar ds i =
     (if i < length ds then (if rel_falsy ar (ds ! i) then rel_literal ar 0 else ds ! i)
      else rel_literal ar 0)"

text \<open>\<open>prepareContext\<close>: the \<open>forEach\<close> appends one entry per result to \<open>context\<close>. The
  relevance \<open>Math.round((1 - distance) * 100)\<close> is computed in the arithmetic \<open>ar\<close>.\<close>

definition prepareContext :: "'d relevance_arithmetic \<Rightarrow> 'd search_result \<Rightarrow> string" where
  "prepareContext ar searchResult =
     (if length (results searchResult) = 0
      then ''No relevant documents found in the knowledge base.''
      else
        fold (\<lambda>(doc, index) context.
               (let metadata = nth_or (metadatas searchResult) index \<lparr>md_filename = None\<rparr>;
                    distance = distance_or_0 ar (distances searchResult) index;
                    relevance = rel_round ar
                                  (rel_mul ar (rel_sub ar (rel_literal ar 1) distance)
                                     (rel_literal ar 100));
                    context1 = context @ ''Document '' @ show_nat (index + 1) @ '' (''
                                 @ rel_toString ar relevance @ ''% relevant'';
                    context2 = (case md_filename metadata of
                                  Some f \<Rightarrow> if f \<noteq> [] then context1 @ '', from: '' @ f
                                            else context1
                                | None \<Rightarrow> context1)
                in context2 @ ''):'' @ [CHR 0x0A] @ doc @ [CHR 0x0A, CHR 0x0A]))
          (zip (results searchResult) [0..<length (results searchResult)])
          (''Based on the following documents:'' @ [CHR 0x0A, CHR 0x0A]))"

record document_chunk =
  dc_id :: string
  dc_text :: jsval
  dc_filename :: "string option"

record ingest_result =
  chunksAdded :: nat
  totalChunks_ingest :: nat

text \<open>The documents handed to the vector store (lines 226 to 237): one per chunk, with the
  embedding of the same index, those with a \<open>null\<close> embedding filtered out.\<close>

definition prepareDocuments :: "'e option list \<Rightarrow> document_chunk list \<Rightarrow> 'e document list" where
  "prepareDocuments embeddings documentChunks =
     filter (\<lambda>doc. doc_embedding doc \<noteq> None)
       (map (\<lambda>(chunk, index).
               \<lparr>doc_id = dc_id chunk, doc_text = dc_text chunk,
                doc_embedding = embeddings ! index,
                doc_metadata = \<lparr>md_filename = dc_filename chunk\<rparr>\<rparr>)
          (zip documentChunks [0..<length documentChunks]))"

definition addDocumentToKnowledgeBase ::
  "(string \<Rightarrow> 'e) \<Rightarrow> ('e document list \<Rightarrow> string option) \<Rightarrow> document_chunk list \<Rightarrow>
     string + ingest_result" where
  "addDocumentToKnowledgeBase createSimpleEmbedding collection_add documentChunks =
     (if documentChunks = [] then Inl ''Invalid document chunks provided''
      else
        (let texts = map dc_text documentChunks
         in case embedBatch createSimpleEmbedding texts of
              Inl e \<Rightarrow> Inl (''Failed to generate embeddings: '' @ e)
            | Inr embeddings \<Rightarrow>
                (let documents = prepareDocuments embeddings documentChunks
                 in case addDocuments collection_add documents of
                      Inl e \<Rightarrow> Inl (''Failed to add documents to vector store: '' @ e)
                    | Inr count \<Rightarrow>
                        Inr \<lparr>chunksAdded = count,
                             totalChunks_ingest = length documentChunks\<rparr>)))"

section \<open>The webhook service and the long-running chat request\<close>

text \<open>
  The clock and the random generator are an environment read through call counters:
  \<open>clock_reads w i\<close> is the \<open>i\<close>-th reading of the clock (\<open>Date.now()\<close>, \<open>new Date()\<close>),
  \<open>random_reads w i\<close> the \<open>i\<close>-th value of
  \<open>Math.random().toString(36).substr(2, 9)\<close>.
\<close>

record world =
  clock_reads :: "nat \<Rightarrow> nat"
  clock_calls :: nat
  random_reads :: "nat \<Rightarrow> string"
  random_calls :: nat

definition Date_now :: "world \<Rightarrow> nat \<times> world" where
  "Date_now w = (clock_reads w (clock_calls w), w\<lparr>clock_calls := Suc (clock_calls w)\<rparr>)"

definition Math_random36 :: "world \<Rightarrow> string \<times> world" where
  "Math_random36 w = (random_reads w (random_calls w), w\<lparr>random_calls := Suc (random_calls w)\<rparr>)"

text \<open>\<open>generateTaskId\<close>: \<open>task_<Date.now()>_<random>\<close>.\<close>

definition generateTaskId :: "world \<Rightarrow> string \<times> world" where
  "generateTaskId w =
     (let (now, w1) = Date_now w;
          (r, w2) = Math_random36 w1
      in (''task_'' @ show_nat now @ ''_'' @ r, w2))"

record task_data =
  td_message :: string
  td_timestamp :: nat
  td_type :: string
  td_taskId :: "string option"

record trigger_payload =
  tp_timestamp :: nat
  tp_taskId :: string
  tp_type :: string
  tp_data :: task_data
  tp_source :: string

record chat_response =
  cr_success :: bool
  cr_message :: string
  cr_taskId :: string
  cr_status :: string

text \<open>\<open>x.taskId || generateTaskId()\<close>: the generator runs only when the field is absent or
  empty.\<close>

definition taskId_or_generate :: "string option \<Rightarrow> world \<Rightarrow> string \<times> world" where
  "taskId_or_generate taskId w =
     (case taskId of
        Some t \<Rightarrow> if t \<noteq> [] then (t, w) else generateTaskId w
      | None \<Rightarrow> generateTaskId w)"

text \<open>\<open>triggerN8nTask\<close> up to its \<open>axios.post\<close>: the payload it posts, or an error when
  the webhook URL is not configured. This part runs synchronously inside the call
  \<open>processLongRunningTask(taskData, ...)\<close>, before the caller continues.\<close>

definition triggerN8nTask_payload ::
  "string option \<Rightarrow> task_data \<Rightarrow> world \<Rightarrow> (string + trigger_payload) \<times> world" where
  "triggerN8nTask_payload n8nWebhookUrl taskData w =
     (if n8nWebhookUrl = None \<or> n8nWebhookUrl = Some [] then (Inl ''N8N webhook URL not configured'', w)
      else
        (let (ts, w1) = Date_now w;
             (tid, w2) = taskId_or_generate (td_taskId taskData) w1
         in (Inr \<lparr>tp_timestamp = ts, tp_taskId = tid, tp_type = ''task_trigger'',
                  tp_data = taskData, tp_source = ''chatbot''\<rparr>, w2)))"

text \<open>\<open>handleLongRunningTask\<close> of the chat route: the task data, the start of the
  background task (its trigger payload), then the response.\<close>

definition handleLongRunningTask ::
  "string option \<Rightarrow> string \<Rightarrow> world \<Rightarrow> chat_response \<times> (string + trigger_payload) \<times> world" where
  "handleLongRunningTask n8nWebhookUrl message w =
     (let (ts, w1) = Date_now w;
          taskData = \<lparr>td_message = message, td_timestamp = ts,
                      td_type = ''long-running-task'', td_taskId = None\<rparr>;
          (triggered, w2) = triggerN8nTask_payload n8nWebhookUrl taskData w1;
          (tid, w3) = taskId_or_generate (td_taskId taskData) w2
      in (\<lparr>cr_success = True, cr_message = ''Processing started...'', cr_taskId = tid,
           cr_status = ''processing''\<rparr>, triggered, w3))"

subsection \<open>The polling loop of \<open>processLongRunningTask\<close>\<close>




section \<open>The chunker: results\<close>

subsection \<open>Evaluating the loop\<close>

lemma loop_body_cycle:
  "loop_body ''aaaaaaaa.aaaaaaaaaaa'' 10 9 0 cs =
     (0, cs @ [\<lparr>chunk_text = ''aaaaaaaa.'', chunk_startIndex = 9, chunk_length = 9\<rparr>])"
  by (simp add: loop_body_def cut_def slice_def breakPoints_def lastIndexOf_def trim_def
        is_space_def)

lemma chunk_loop_cycle:
  assumes "chunk_loop t c ov s cs = Some y"
  shows "\<not> (t = ''aaaaaaaa.aaaaaaaaaaa'' \<and> c = 10 \<and> ov = 9 \<and> s = 0)"
proof (rule chunk_loop.raw_induct
        [where P = "\<lambda>a b c d e y. \<not> (a = ''aaaaaaaa.aaaaaaaaaaa'' \<and> b = 10 \<and> c = 9 \<and> d = 0)",
         OF _ assms])
  fix f :: "string \<Rightarrow> nat \<Rightarrow> nat \<Rightarrow> nat \<Rightarrow> text_chunk list \<Rightarrow> text_chunk list option"
  fix a :: string and b c d :: nat and e y :: "text_chunk list"
  assume IH: "\<And>a b c d e y. f a b c d e = Some y \<Longrightarrow>
                \<not> (a = ''aaaaaaaa.aaaaaaaaaaa'' \<and> b = 10 \<and> c = 9 \<and> d = 0)"
  assume run: "(if d < length a
      then case loop_body a b c d e of (d', e') \<Rightarrow> f a b c d' e'
      else Some e) = Some y"
  show "\<not> (a = ''aaaaaaaa.aaaaaaaaaaa'' \<and> b = 10 \<and> c = 9 \<and> d = 0)"
  proof
    assume "a = ''aaaaaaaa.aaaaaaaaaaa'' \<and> b = 10 \<and> c = 9 \<and> d = 0"
    with run have "f ''aaaaaaaa.aaaaaaaaaaa'' 10 9 0
        (e @ [\<lparr>chunk_text = ''aaaaaaaa.'', chunk_startIndex = 9, chunk_length = 9\<rparr>]) = Some y"
      by (simp add: loop_body_cycle)
    from IH[OF this] show False by simp
  qed
qed

lemma cut_fits: "length t \<le> c \<Longrightarrow> cut t c 0 = (t, length t)"
  by (simp add: cut_def slice_def min_def)

lemma chunk_loop_fits:
  assumes "length t \<le> c"
  shows "chunk_loop t c ov 0 [] =
     Some (if length (trim t) > 0
           then [\<lparr>chunk_text = trim t, chunk_startIndex = length t,
                   chunk_length = length (trim t)\<rparr>]
           else [])"
proof (cases "t = []")
  case True
  then show ?thesis by (simp add: chunk_loop.simps trim_def)
next
  case False
  then show ?thesis using assms
    by (simp add: chunk_loop.simps[of t c ov 0] chunk_loop.simps[of t c ov "length t"]
          loop_body_def cut_fits Let_def)
qed

lemma map_fst_zip_upt: "map (g \<circ> fst) (zip cs [0..<length cs]) = map g cs"
proof -
  have "map (g \<circ> fst) (zip cs [0..<length cs]) = map g (map fst (zip cs [0..<length cs]))"
    by (simp only: map_map)
  also have "map fst (zip cs [0..<length cs]) = cs"
    by (rule map_fst_zip) simp
  finally show ?thesis .
qed

lemma map_boundaries_enrichedChunks:
  "map boundaries (enrichedChunks env filename fileType fileSize cs) =
     map (\<lambda>c. (chunk_text c, chunk_startIndex c, chunk_length c)) cs"
proof -
  have "map boundaries (enrichedChunks env filename fileType fileSize cs) =
          map ((\<lambda>c. (chunk_text c, chunk_startIndex c, chunk_length c)) \<circ> fst)
            (zip cs [0..<length cs])"
    by (simp add: enrichedChunks_def boundaries_def comp_def case_prod_beta)
  then show ?thesis by (simp only: map_fst_zip_upt)
qed

subsection \<open>Progress of the loop\<close>

lemma last_30_percent_iff:
  "(real_of_int p > real s + real c * 0.7) = (10 * p > 10 * int s + 7 * int c)"
proof -
  have "(real_of_int p > real s + real c * 0.7) =
          (real_of_int (10 * p) > real_of_int (10 * int s + 7 * int c))"
    by (simp add: field_simps)
  also have "\<dots> = (10 * p > 10 * int s + 7 * int c)"
    by (simp only: of_int_less_iff)
  finally show ?thesis .
qed

lemma lastIndexOf_from_less: "lastIndexOf_from i s ch < int i + int (length s)"
proof (induction s arbitrary: i)
  case Nil
  show ?case by simp
next
  case (Cons x xs)
  from Cons[of "Suc i"] show ?case by (simp add: Let_def)
qed

lemma lastIndexOf_less: "lastIndexOf s ch < int (length s)"
  using lastIndexOf_from_less[of 0 s ch] by (simp add: lastIndexOf_def)

lemma Math_max_in_set: "xs \<noteq> [] \<Longrightarrow> Math_max xs \<in> set xs"
  by (induction xs rule: Math_max.induct) (auto simp: max_def)

lemma breakPoints_member:
  assumes "p \<in> set (breakPoints chunk s c)"
  shows "10 * p > 10 * int s + 7 * int c" and "p < int (length chunk)"
proof -
  from assms have f: "real_of_int p > real s + real c * 0.7"
    and m: "p \<in> {lastIndexOf chunk CHR ''.'', lastIndexOf chunk CHR ''?'',
                 lastIndexOf chunk CHR ''!'', lastIndexOf chunk CHR 0x0A}"
    by (auto simp: breakPoints_def Let_def split: if_splits)
  from f show "10 * p > 10 * int s + 7 * int c" by (simp only: last_30_percent_iff)
  from m show "p < int (length chunk)" by (auto simp: lastIndexOf_less)
qed

lemma length_slice: "length (slice t a b) = min (b - a) (length t - a)"
  by (simp add: slice_def)

text \<open>From a \<open>startIndex\<close> of \<open>0.3 * chunkSize\<close> on, no index inside the window can exceed
  \<open>startIndex + chunkSize * 0.7\<close>, so the cut is always the hard one.\<close>

lemma cut_hard_when_startIndex_large:
  assumes "3 * chunkSize \<le> 10 * startIndex"
  shows "cut t chunkSize startIndex =
           (slice t startIndex (min (startIndex + chunkSize) (length t)),
            min (startIndex + chunkSize) (length t))"
proof -
  have "breakPoints (slice t startIndex (min (startIndex + chunkSize) (length t)))
          startIndex chunkSize = []"
  proof (rule ccontr)
    assume "breakPoints (slice t startIndex (min (startIndex + chunkSize) (length t)))
          startIndex chunkSize \<noteq> []"
    then have p: "hd (breakPoints (slice t startIndex (min (startIndex + chunkSize) (length t)))
          startIndex chunkSize)
        \<in> set (breakPoints (slice t startIndex (min (startIndex + chunkSize) (length t)))
          startIndex chunkSize)"
      by (rule hd_in_set)
    define p where "p = hd (breakPoints (slice t startIndex (min (startIndex + chunkSize) (length t)))
          startIndex chunkSize)"
    from breakPoints_member[OF p] have "10 * p > 10 * int startIndex + 7 * int chunkSize"
      and "p < int chunkSize"
      unfolding p_def by (auto simp: length_slice)
    with assms show False by linarith
  qed
  then show ?thesis unfolding cut_def Let_def by (simp only: list.size less_irrefl if_False if_cancel)
qed

lemma cut_progress:
  assumes "startIndex < length t" and "0 < chunkSize"
  shows "snd (cut t chunkSize startIndex) \<le> length t"
    and "snd (cut t chunkSize startIndex) < length t \<Longrightarrow>
           10 * int (snd (cut t chunkSize startIndex)) > 10 * int startIndex + 7 * int chunkSize"
    and "startIndex < snd (cut t chunkSize startIndex)"
proof -
  let ?e = "min (startIndex + chunkSize) (length t)"
  let ?chunk = "slice t startIndex ?e"
  let ?bps = "breakPoints ?chunk startIndex chunkSize"
  have goal: "snd (cut t chunkSize startIndex) \<le> length t \<and>
        (snd (cut t chunkSize startIndex) < length t \<longrightarrow>
           10 * int (snd (cut t chunkSize startIndex)) > 10 * int startIndex + 7 * int chunkSize) \<and>
        startIndex < snd (cut t chunkSize startIndex)"
  proof (cases "?e < length t \<and> ?bps \<noteq> []")
    case True
    then have e: "?e = startIndex + chunkSize" and lt: "startIndex + chunkSize < length t"
      by (auto simp: min_def split: if_splits)
    from True have "Math_max ?bps \<in> set ?bps" by (intro Math_max_in_set) simp
    from breakPoints_member[OF this]
    have b1: "10 * Math_max ?bps > 10 * int startIndex + 7 * int chunkSize"
      and b2: "Math_max ?bps < int (length ?chunk)" by auto
    from b2 lt have b3: "Math_max ?bps < int chunkSize"
      by (simp add: length_slice e)
    have c: "snd (cut t chunkSize startIndex) = nat (Math_max ?bps + 1)"
      using True by (simp add: cut_def Let_def)
    from b1 b3 lt show ?thesis unfolding c by auto
  next
    case False
    then have c: "snd (cut t chunkSize startIndex) = ?e"
      by (auto simp: cut_def Let_def)
    from assms show ?thesis unfolding c by (auto simp: min_def)
  qed
  from goal show "snd (cut t chunkSize startIndex) \<le> length t" by blast
  from goal show "snd (cut t chunkSize startIndex) < length t \<Longrightarrow>
           10 * int (snd (cut t chunkSize startIndex)) > 10 * int startIndex + 7 * int chunkSize"
    by blast
  from goal show "startIndex < snd (cut t chunkSize startIndex)" by blast
qed

lemma loop_body_progress:
  assumes "startIndex < length t" and "0 < chunkSize" and "10 * overlap \<le> 7 * chunkSize"
  shows "startIndex < fst (loop_body t chunkSize overlap startIndex cs)"
    and "fst (loop_body t chunkSize overlap startIndex cs) \<le> length t"
proof -
  let ?s1 = "snd (cut t chunkSize startIndex)"
  have f: "fst (loop_body t chunkSize overlap startIndex cs) =
             (if ?s1 < length t then nat (max 0 (int ?s1 - int overlap)) else ?s1)"
    by (simp add: loop_body_def Let_def case_prod_beta)
  note p = cut_progress[OF assms(1,2)]
  show "startIndex < fst (loop_body t chunkSize overlap startIndex cs)"
  proof (cases "?s1 < length t")
    case True
    from p(2)[OF True] assms(3) have "int startIndex < int ?s1 - int overlap" by linarith
    with True show ?thesis unfolding f by simp
  next
    case False
    with p(3) show ?thesis unfolding f by simp
  qed
  show "fst (loop_body t chunkSize overlap startIndex cs) \<le> length t"
    using p(1) unfolding f by auto
qed

text \<open>With an overlap of at most 70% of a positive chunk size (the defaults 1000 and 200
  among them) every iteration moves \<open>startIndex\<close> forward, and the loop returns.\<close>

lemma chunk_loop_terminates:
  assumes "0 < chunkSize" and "10 * overlap \<le> 7 * chunkSize"
  shows "\<exists>r. chunk_loop t chunkSize overlap startIndex cs = Some r"
proof (induction "length t - startIndex" arbitrary: startIndex cs rule: less_induct)
  case less
  show ?case
  proof (cases "startIndex < length t")
    case False
    then show ?thesis by (subst chunk_loop.simps) simp
  next
    case True
    obtain s' cs' where b: "loop_body t chunkSize overlap startIndex cs = (s', cs')"
      by (cases "loop_body t chunkSize overlap startIndex cs") blast
    from loop_body_progress[OF True assms, of cs] b
    have "startIndex < s'" and "s' \<le> length t" by simp_all
    then have "length t - s' < length t - startIndex" using True by simp
    from less[OF this] obtain r where "chunk_loop t chunkSize overlap s' cs' = Some r" by blast
    with True b show ?thesis by (subst chunk_loop.simps) simp
  qed
qed

lemma createTextChunks_terminates:
  assumes "0 < chunkSize" and "10 * overlap \<le> 7 * chunkSize"
  shows "\<exists>r. createTextChunks t chunkSize overlap m = Some r"
  using chunk_loop_terminates[OF assms, of t 0 "[]"]
  by (auto simp: createTextChunks_def)

subsection \<open>Sentence boundaries (C1)\<close>

text \<open>
  C1. The claim: in every window that does not reach the end of the text, a boundary
  character in the last 30% of the window ends the chunk. The source compares the index
  inside the window with \<open>startIndex + chunkSize * 0.7\<close>, an index into the whole text,
  so from the second window on the boundary is missed. With \<open>chunkSize = 10\<close> and
  \<open>overlap = 0\<close> the second window of the text below starts at 10 and holds a full stop
  at its index 8 (text index 18): the contract cuts after it, at 19, and the source cuts at
  the hard boundary 20, keeping the character after the full stop in the chunk.
\<close>

theorem cut_misses_boundary_in_second_window:
  "cut ''aaaaaaaaaaaaaaaaaa.aaaaa'' 10 10 = (''aaaaaaaa.a'', 20) \<and>
   spec_cut ''aaaaaaaaaaaaaaaaaa.aaaaa'' 10 10 = (''aaaaaaaa.'', 19) \<and>
   map_option chunks (createTextChunks ''aaaaaaaaaaaaaaaaaa.aaaaa'' 10 0 ()) =
     Some [\<lparr>chunk_text = ''aaaaaaaaaa'', chunk_startIndex = 10, chunk_length = 10\<rparr>,
           \<lparr>chunk_text = ''aaaaaaaa.a'', chunk_startIndex = 20, chunk_length = 10\<rparr>,
           \<lparr>chunk_text = ''aaaa'', chunk_startIndex = 24, chunk_length = 4\<rparr>]"
  by code_simp

text \<open>The example of the contract, chunk size 20 and overlap 5: the first window holds no
  boundary character in its last 30% and is cut at 20, before the full stop; the second
  window reaches the end of the text.\<close>

lemma createTextChunks_cat_example:
  "map_option chunks (createTextChunks ''A cat sat. A dog ran. The sun rose.'' 20 5 ()) =
     Some [\<lparr>chunk_text = ''A cat sat. A dog ran'', chunk_startIndex = 20, chunk_length = 20\<rparr>,
           \<lparr>chunk_text = ''g ran. The sun rose.'', chunk_startIndex = 35, chunk_length = 20\<rparr>]"
  by code_simp

subsection \<open>No check of the parameters (C2)\<close>

text \<open>
  C2, as stated, fails: with \<open>chunkSize = overlap = 5\<close> the text \<open>abc\<close> is chunked and the
  call succeeds.
\<close>

theorem createTextChunks_accepts_equal_parameters:
  "createTextChunks ''abc'' 5 5 () =
     Some \<lparr>success = True,
           chunks = [\<lparr>chunk_text = ''abc'', chunk_startIndex = 3, chunk_length = 3\<rparr>],
           totalChunks = 1, originalText = ''abc'', metadata = ()\<rparr>"
  by code_simp

text \<open>
  C2, amended. For every text and every pair with \<open>chunkSize \<le> overlap\<close> the chunker
  checks nothing and never rejects the call: a call that returns, returns success; and a
  text that fits in one window (\<open>length text \<le> chunkSize\<close>) is returned as its single
  trimmed chunk, or as no chunk when it is blank.
\<close>

theorem createTextChunks_never_rejects:
  assumes "chunkSize \<le> overlap"
  shows "(createTextChunks t chunkSize overlap m = None \<or>
          (\<exists>r. createTextChunks t chunkSize overlap m = Some r \<and> success r)) \<and>
         (length t \<le> chunkSize \<longrightarrow>
            createTextChunks t chunkSize overlap m =
              Some \<lparr>success = True,
                    chunks = (if length (trim t) > 0
                              then [\<lparr>chunk_text = trim t, chunk_startIndex = length t,
                                      chunk_length = length (trim t)\<rparr>]
                              else []),
                    totalChunks = (if length (trim t) > 0 then 1 else 0),
                    originalText = t, metadata = m\<rparr>)"
proof
  show "createTextChunks t chunkSize overlap m = None \<or>
          (\<exists>r. createTextChunks t chunkSize overlap m = Some r \<and> success r)"
    by (cases "chunk_loop t chunkSize overlap 0 []") (simp_all add: createTextChunks_def)
next
  show "length t \<le> chunkSize \<longrightarrow>
            createTextChunks t chunkSize overlap m =
              Some \<lparr>success = True,
                    chunks = (if length (trim t) > 0
                              then [\<lparr>chunk_text = trim t, chunk_startIndex = length t,
                                      chunk_length = length (trim t)\<rparr>]
                              else []),
                    totalChunks = (if length (trim t) > 0 then 1 else 0),
                    originalText = t, metadata = m\<rparr>"
    by (simp add: createTextChunks_def chunk_loop_fits)
qed

theorem createTextChunks_never_rejects_witness:
  "(11::nat) \<le> 20 \<and> length ''hello world'' \<le> 11 \<and>
   createTextChunks ''hello world'' 11 20 () =
     Some \<lparr>success = True,
           chunks = [\<lparr>chunk_text = ''hello world'', chunk_startIndex = 11, chunk_length = 11\<rparr>],
           totalChunks = 1, originalText = ''hello world'', metadata = ()\<rparr>"
proof -
  have h: "(11::nat) \<le> 20" by simp
  show ?thesis
    using createTextChunks_never_rejects [OF h, of "''hello world''" "()"]
    by (simp add: trim_def is_space_def)
qed

subsection \<open>Termination (C3)\<close>

text \<open>
  C3. The claim: for \<open>chunkSize > overlap \<ge> 0\<close> the loop terminates. After a cut at a
  sentence boundary the new \<open>startIndex\<close> is \<open>bestBreak + 1 - overlap\<close>, which is not beyond
  the old one when the overlap is larger than the chunk the boundary closed. With
  \<open>chunkSize = 10\<close> and \<open>overlap = 9\<close> the text below is cut after its full stop at index 8
  and the next window starts at \<open>9 - 9 = 0\<close> again: the loop never ends, so the call never
  returns.
\<close>

theorem createTextChunks_diverges:
  "createTextChunks ''aaaaaaaa.aaaaaaaaaaa'' 10 9 () = None"
proof (cases "chunk_loop ''aaaaaaaa.aaaaaaaaaaa'' 10 9 0 []")
  case None
  then show ?thesis by (simp add: createTextChunks_def)
next
  case (Some y)
  from chunk_loop_cycle[OF this] show ?thesis by simp
qed

subsection \<open>Determinism (C8)\<close>

text \<open>
  C8. Two runs of the chunking operation on the same text and parameters, whatever
  identifiers and dates their environments supply, yield the same chunk texts and
  boundaries (or both do not return), and these are the ones \<open>createTextChunks\<close> computes
  from the text and the parameters alone.
\<close>

theorem chunking_deterministic:
  "map_option (map boundaries)
     (parseDocumentChunks env1 t filename fileType fileSize chunkSize overlap) =
   map_option (map boundaries)
     (parseDocumentChunks env2 t filename fileType fileSize chunkSize overlap) \<and>
   map_option (map boundaries)
     (parseDocumentChunks env1 t filename fileType fileSize chunkSize overlap) =
   map_option (\<lambda>r. map (\<lambda>c. (chunk_text c, chunk_startIndex c, chunk_length c)) (chunks r))
     (createTextChunks t chunkSize overlap ())"
  by (simp add: parseDocumentChunks_def option.map_comp comp_def map_boundaries_enrichedChunks)


section \<open>The RAG service: results\<close>

subsection \<open>Context assembly (C9)\<close>

lemma fold_append_concat:
  "fold (\<lambda>x acc. acc @ f x) xs acc = acc @ concat (map f xs)"
  by (induction xs arbitrary: acc) simp_all

lemma map_zip_upt: "map f (zip xs [0..<length xs]) = map (\<lambda>i. f (xs ! i, i)) [0..<length xs]"
  by (rule nth_equalityI) simp_all

text \<open>
  C9. With no result the context is the sentinel string. With at least one result it is
  the header followed by one entry per result, in order: entry \<open>i\<close> (counted from 0) is
  numbered \<open>i + 1\<close>, carries \<open>Math.round((1 - distance\<^sub>i) * 100)\<close> as its relevance
  percentage, computed and printed by the arithmetic of the numbers (an absent or falsy
  distance counts as 0), and, when the metadata of the result has a non-empty filename,
  that filename after \<open>, from: \<close>; then the text of the result.
\<close>

theorem prepareContext_numbered_list:
  "(results sr = [] \<longrightarrow>
      prepareContext ar sr = ''No relevant documents found in the knowledge base.'') \<and>
   (results sr \<noteq> [] \<longrightarrow>
      prepareContext ar sr =
        ''Based on the following documents:'' @ [CHR 0x0A, CHR 0x0A] @
        concat (map (\<lambda>i.
            ''Document '' @ show_nat (i + 1) @ '' ('' @
            rel_toString ar
              (rel_round ar
                 (rel_mul ar
                    (rel_sub ar (rel_literal ar 1)
                       (if i < length (distances sr) \<and> \<not> rel_falsy ar (distances sr ! i)
                        then distances sr ! i else rel_literal ar 0))
                    (rel_literal ar 100))) @
            ''% relevant'' @
            (case md_filename (nth_or (metadatas sr) i \<lparr>md_filename = None\<rparr>) of
               Some f \<Rightarrow> if f \<noteq> [] then '', from: '' @ f else []
             | None \<Rightarrow> []) @
            ''):'' @ [CHR 0x0A] @ results sr ! i @ [CHR 0x0A, CHR 0x0A])
          [0..<length (results sr)]))"
proof (intro conjI impI)
  assume "results sr = []"
  then show "prepareContext ar sr = ''No relevant documents found in the knowledge base.''"
    by (simp add: prepareContext_def)
next
  let ?entry = "\<lambda>(doc, i).
            ''Document '' @ show_nat (i + 1) @ '' ('' @
            rel_toString ar
              (rel_round ar
                 (rel_mul ar
                    (rel_sub ar (rel_literal ar 1)
                       (if i < length (distances sr) \<and> \<not> rel_falsy ar (distances sr ! i)
                        then distances sr ! i else rel_literal ar 0))
                    (rel_literal ar 100))) @
            ''% relevant'' @
            (case md_filename (nth_or (metadatas sr) i \<lparr>md_filename = None\<rparr>) of
               Some f \<Rightarrow> if f \<noteq> [] then '', from: '' @ f else []
             | None \<Rightarrow> []) @
            ''):'' @ [CHR 0x0A] @ doc @ [CHR 0x0A, CHR 0x0A]"
  assume ne: "results sr \<noteq> []"
  have d: "distance_or_0 ar (distances sr) i =
             (if i < length (distances sr) \<and> \<not> rel_falsy ar (distances sr ! i)
              then distances sr ! i else rel_literal ar 0)" for i
    by (simp add: distance_or_0_def)
  have body: "(\<lambda>(doc, index) context.
               (let metadata = nth_or (metadatas sr) index \<lparr>md_filename = None\<rparr>;
                    distance = distance_or_0 ar (distances sr) index;
                    relevance = rel_round ar
                                  (rel_mul ar (rel_sub ar (rel_literal ar 1) distance)
                                     (rel_literal ar 100));
                    context1 = context @ ''Document '' @ show_nat (index + 1) @ '' (''
                                 @ rel_toString ar relevance @ ''% relevant'';
                    context2 = (case md_filename metadata of
                                  Some f \<Rightarrow> if f \<noteq> [] then context1 @ '', from: '' @ f
                                            else context1
                                | None \<Rightarrow> context1)
                in context2 @ ''):'' @ [CHR 0x0A] @ doc @ [CHR 0x0A, CHR 0x0A]))
        = (\<lambda>x acc. acc @ ?entry x)"
    unfolding d by (intro ext) (simp add: Let_def split: prod.splits option.splits)
  have "prepareContext ar sr =
          fold (\<lambda>x acc. acc @ ?entry x) (zip (results sr) [0..<length (results sr)])
            (''Based on the following documents:'' @ [CHR 0x0A, CHR 0x0A])"
    using ne unfolding prepareContext_def body by simp
  also have "\<dots> = (''Based on the following documents:'' @ [CHR 0x0A, CHR 0x0A]) @
                     concat (map ?entry (zip (results sr) [0..<length (results sr)]))"
    by (rule fold_append_concat)
  also have "map ?entry (zip (results sr) [0..<length (results sr)]) =
               map (\<lambda>i. ?entry (results sr ! i, i)) [0..<length (results sr)]"
    by (rule map_zip_upt)
  finally show "prepareContext ar sr =
        ''Based on the following documents:'' @ [CHR 0x0A, CHR 0x0A] @
        concat (map (\<lambda>i.
            ''Document '' @ show_nat (i + 1) @ '' ('' @
            rel_toString ar
              (rel_round ar
                 (rel_mul ar
                    (rel_sub ar (rel_literal ar 1)
                       (if i < length (distances sr) \<and> \<not> rel_falsy ar (distances sr ! i)
                        then distances sr ! i else rel_literal ar 0))
                    (rel_literal ar 100))) @
            ''% relevant'' @
            (case md_filename (nth_or (metadatas sr) i \<lparr>md_filename = None\<rparr>) of
               Some f \<Rightarrow> if f \<noteq> [] then '', from: '' @ f else []
             | None \<Rightarrow> []) @
            ''):'' @ [CHR 0x0A] @ results sr ! i @ [CHR 0x0A, CHR 0x0A])
          [0..<length (results sr)])"
    by simp
qed

text \<open>Two results at the distances 0 and 2, integers, for which the doubles compute
  \<open>(1 - 0) * 100 = 100\<close> and \<open>(1 - 2) * 100 = -100\<close> exactly.\<close>

lemma show_nat_examples:
  "show_nat (Suc 0) = ''1''" "show_nat (Suc (Suc 0)) = ''2''" "show_nat 100 = ''100''"
  by (simp_all add: show_nat.simps)

theorem prepareContext_numbered_list_witness:
  "results \<lparr>results = [''alpha'', ''beta''],
            metadatas = [Some \<lparr>md_filename = Some ''a.txt''\<rparr>, None],
            distances = [0, 2 :: int]\<rparr> \<noteq> [] \<and>
   prepareContext integer_arithmetic
      \<lparr>results = [''alpha'', ''beta''],
       metadatas = [Some \<lparr>md_filename = Some ''a.txt''\<rparr>, None],
       distances = [0, 2 :: int]\<rparr> =
     ''Based on the following documents:'' @ [CHR 0x0A, CHR 0x0A] @
     ''Document 1 (100% relevant, from: a.txt):'' @ [CHR 0x0A] @ ''alpha'' @ [CHR 0x0A, CHR 0x0A] @
     ''Document 2 (-100% relevant):'' @ [CHR 0x0A] @ ''beta'' @ [CHR 0x0A, CHR 0x0A]"
  using prepareContext_numbered_list
          [of "\<lparr>results = [''alpha'', ''beta''],
                metadatas = [Some \<lparr>md_filename = Some ''a.txt''\<rparr>, None],
                distances = [0, 2 :: int]\<rparr>" integer_arithmetic]
  by (simp add: integer_arithmetic_def nth_or_def show_int_def show_nat_examples
        upt_rec[of 0] upt_rec[of 1] upt_rec[of 2])

subsection \<open>Partial ingest (C5)\<close>

lemma embedBatch_nonempty:
  "texts \<noteq> [] \<Longrightarrow>
     embedBatch cse texts =
       Inr (map (\<lambda>t. if \<not> truthy t \<or> \<not> is_string t then None
                      else (case t of JString s \<Rightarrow> Some (cse s) | _ \<Rightarrow> None)) texts)"
  by (simp add: embedBatch_def embedText_def split: jsval.splits)

lemma prepareDocuments_map:
  "prepareDocuments (map g (map dc_text cs)) cs =
     filter (\<lambda>doc. doc_embedding doc \<noteq> None)
       (map (\<lambda>chunk. \<lparr>doc_id = dc_id chunk, doc_text = dc_text chunk,
                       doc_embedding = g (dc_text chunk),
                       doc_metadata = \<lparr>md_filename = dc_filename chunk\<rparr>\<rparr>) cs)"
proof -
  have "map (\<lambda>(chunk, index).
               \<lparr>doc_id = dc_id chunk, doc_text = dc_text chunk,
                doc_embedding = map g (map dc_text cs) ! index,
                doc_metadata = \<lparr>md_filename = dc_filename chunk\<rparr>\<rparr>)
          (zip cs [0..<length cs]) =
        map (\<lambda>chunk. \<lparr>doc_id = dc_id chunk, doc_text = dc_text chunk,
                       doc_embedding = g (dc_text chunk),
                       doc_metadata = \<lparr>md_filename = dc_filename chunk\<rparr>\<rparr>) cs"
    by (rule nth_equalityI) simp_all
  then show ?thesis by (simp add: prepareDocuments_def)
qed

text \<open>
  C5, as stated, fails when every chunk fails to embed: a single chunk whose text is the
  number 5 (it passes the ingest route's check \<open>!doc.text\<close>) leaves no survivor, the vector
  store rejects the empty batch and the ingest reports a failure, not a success.
\<close>

theorem addDocumentToKnowledgeBase_all_failed:
  "addDocumentToKnowledgeBase (\<lambda>s. [1::real]) (\<lambda>docs. None)
     [\<lparr>dc_id = ''a'', dc_text = JNumber 5, dc_filename = None\<rparr>] =
   Inl ''Failed to add documents to vector store: Invalid documents array''"
  by (simp add: addDocumentToKnowledgeBase_def embedBatch_def embedText_def prepareDocuments_def
        addDocuments_def)

text \<open>
  C5, amended. For every non-empty list of \<open>N\<close> chunks of which \<open>m\<close> have a \<open>null\<close>
  embedding (those whose text is not a non-empty string), the documents handed to the
  vector store are the \<open>N - m\<close> survivors, in order. When the store reports a count the
  ingest succeeds with that count as \<open>chunksAdded\<close> and \<open>totalChunks = N\<close>; when the store
  fails the ingest fails with the store's message; and the store fails whenever no chunk
  survives (\<open>m = N\<close>).
\<close>

theorem addDocumentToKnowledgeBase_partial:
  assumes "documentChunks \<noteq> []"
  shows "\<exists>embeddings.
           embedBatch cse (map dc_text documentChunks) = Inr embeddings \<and>
           length embeddings = length documentChunks \<and>
           (\<forall>i < length documentChunks.
              (embeddings ! i = None) =
              (\<not> truthy (dc_text (documentChunks ! i)) \<or> \<not> is_string (dc_text (documentChunks ! i)))) \<and>
           map doc_id (prepareDocuments embeddings documentChunks) =
             map dc_id (filter (\<lambda>c. truthy (dc_text c) \<and> is_string (dc_text c)) documentChunks) \<and>
           length (prepareDocuments embeddings documentChunks) =
             length documentChunks - length (filter (\<lambda>e. e = None) embeddings) \<and>
           (\<forall>count. addDocuments collection_add (prepareDocuments embeddings documentChunks) = Inr count \<longrightarrow>
              addDocumentToKnowledgeBase cse collection_add documentChunks =
                Inr \<lparr>chunksAdded = count, totalChunks_ingest = length documentChunks\<rparr>) \<and>
           (\<forall>e. addDocuments collection_add (prepareDocuments embeddings documentChunks) = Inl e \<longrightarrow>
              addDocumentToKnowledgeBase cse collection_add documentChunks =
                Inl (''Failed to add documents to vector store: '' @ e)) \<and>
           (length (filter (\<lambda>e. e = None) embeddings) = length documentChunks \<longrightarrow>
              addDocuments collection_add (prepareDocuments embeddings documentChunks) =
                Inl ''Invalid documents array'')"
proof -
  define g where "g = (\<lambda>t. if \<not> truthy t \<or> \<not> is_string t then None
                 else (case t of JString s \<Rightarrow> Some (cse s) | _ \<Rightarrow> None))"
  have g_None: "(g t = None) = (\<not> (truthy t \<and> is_string t))" for t
    unfolding g_def by (cases t) simp_all
  let ?embs = "map g (map dc_text documentChunks)"
  let ?docs = "prepareDocuments ?embs documentChunks"
  let ?ok = "\<lambda>c. truthy (dc_text c) \<and> is_string (dc_text c)"
  have batch: "embedBatch cse (map dc_text documentChunks) = Inr ?embs"
    using assms unfolding g_def by (simp add: embedBatch_nonempty)
  have len: "length ?embs = length documentChunks" by simp
  have nth: "\<forall>i < length documentChunks.
              (?embs ! i = None) =
              (\<not> truthy (dc_text (documentChunks ! i)) \<or> \<not> is_string (dc_text (documentChunks ! i)))"
    by (simp add: g_None)
  have flt: "filter (\<lambda>c. g (dc_text c) \<noteq> None) documentChunks = filter ?ok documentChunks"
    by (simp only: g_None not_not)
  have docs: "?docs = map (\<lambda>chunk. \<lparr>doc_id = dc_id chunk, doc_text = dc_text chunk,
                       doc_embedding = g (dc_text chunk),
                       doc_metadata = \<lparr>md_filename = dc_filename chunk\<rparr>\<rparr>) (filter ?ok documentChunks)"
    unfolding prepareDocuments_map flt[symmetric]
    by (simp add: filter_map comp_def del: not_None_eq)
  have ids: "map doc_id ?docs = map dc_id (filter ?ok documentChunks)"
    unfolding docs by (simp add: comp_def)
  have failed: "length (filter (\<lambda>e. e = None) ?embs) =
                  length (filter (\<lambda>c. \<not> ?ok c) documentChunks)"
    by (simp add: filter_map comp_def g_None)
  have count: "length ?docs = length documentChunks - length (filter (\<lambda>e. e = None) ?embs)"
    unfolding failed docs
    using sum_length_filter_compl[of ?ok documentChunks] by simp
  have ok: "\<forall>count. addDocuments collection_add ?docs = Inr count \<longrightarrow>
              addDocumentToKnowledgeBase cse collection_add documentChunks =
                Inr \<lparr>chunksAdded = count, totalChunks_ingest = length documentChunks\<rparr>"
    using assms by (simp add: addDocumentToKnowledgeBase_def batch Let_def)
  have bad: "\<forall>e. addDocuments collection_add ?docs = Inl e \<longrightarrow>
              addDocumentToKnowledgeBase cse collection_add documentChunks =
                Inl (''Failed to add documents to vector store: '' @ e)"
    using assms by (simp add: addDocumentToKnowledgeBase_def batch Let_def)
  have none: "length (filter (\<lambda>e. e = None) ?embs) = length documentChunks \<longrightarrow>
              addDocuments collection_add ?docs = Inl ''Invalid documents array''"
  proof
    assume "length (filter (\<lambda>e. e = None) ?embs) = length documentChunks"
    with count have "length ?docs = 0" by simp
    then have "?docs = []" by simp
    then show "addDocuments collection_add ?docs = Inl ''Invalid documents array''"
      by (simp add: addDocuments_def)
  qed
  from batch len nth ids count ok bad none show ?thesis by blast
qed

text \<open>Three chunks, the second of which fails to embed, and a store that accepts what it
  is given: two chunks added out of three.\<close>

theorem addDocumentToKnowledgeBase_partial_witness:
  "[\<lparr>dc_id = ''c1'', dc_text = JString ''one'', dc_filename = Some ''f.txt''\<rparr>,
    \<lparr>dc_id = ''c2'', dc_text = JString '''', dc_filename = Some ''f.txt''\<rparr>,
    \<lparr>dc_id = ''c3'', dc_text = JString ''three'', dc_filename = Some ''f.txt''\<rparr>] \<noteq> [] \<and>
   addDocumentToKnowledgeBase (\<lambda>s. [1::real]) (\<lambda>docs. None)
     [\<lparr>dc_id = ''c1'', dc_text = JString ''one'', dc_filename = Some ''f.txt''\<rparr>,
      \<lparr>dc_id = ''c2'', dc_text = JString '''', dc_filename = Some ''f.txt''\<rparr>,
      \<lparr>dc_id = ''c3'', dc_text = JString ''three'', dc_filename = Some ''f.txt''\<rparr>] =
   Inr \<lparr>chunksAdded = 2, totalChunks_ingest = 3\<rparr>"
proof -
  let ?cs = "[\<lparr>dc_id = ''c1'', dc_text = JString ''one'', dc_filename = Some ''f.txt''\<rparr>,
      \<lparr>dc_id = ''c2'', dc_text = JString '''', dc_filename = Some ''f.txt''\<rparr>,
      \<lparr>dc_id = ''c3'', dc_text = JString ''three'', dc_filename = Some ''f.txt''\<rparr>]"
  have ne: "?cs \<noteq> []" by simp
  from addDocumentToKnowledgeBase_partial [OF ne, of "\<lambda>s. [1::real]" "\<lambda>docs. None"]
  obtain embeddings where
    e: "embedBatch (\<lambda>s. [1::real]) (map dc_text ?cs) = Inr embeddings" and
    ok: "\<forall>count. addDocuments (\<lambda>docs. None) (prepareDocuments embeddings ?cs) = Inr count \<longrightarrow>
           addDocumentToKnowledgeBase (\<lambda>s. [1::real]) (\<lambda>docs. None) ?cs =
             Inr \<lparr>chunksAdded = count, totalChunks_ingest = length ?cs\<rparr>"
    by blast
  from e have embs: "embeddings = [Some [1], None, Some [1]]"
    by (simp add: embedBatch_def embedText_def)
  have "addDocuments (\<lambda>docs. None) (prepareDocuments embeddings ?cs) = Inr 2"
    unfolding embs
    by (simp add: prepareDocuments_def addDocuments_def upt_rec[of 0] upt_rec[of 1] upt_rec[of 2])
  with ok have "addDocumentToKnowledgeBase (\<lambda>s. [1::real]) (\<lambda>docs. None) ?cs =
             Inr \<lparr>chunksAdded = 2, totalChunks_ingest = length ?cs\<rparr>"
    by blast
  with ne show ?thesis by simp
qed


section \<open>The embedder: results\<close>

subsection \<open>Similarity (C6)\<close>

text \<open>The two failures, in every arithmetic: an absent argument and two vectors of
  different lengths.\<close>

lemma similarity_missing_argument:
  "similarity ar None b = Inl ''Both embeddings are required for similarity calculation''"
  "similarity ar a None = Inl ''Both embeddings are required for similarity calculation''"
  by (cases a; simp add: similarity_def)+

lemma similarity_dimension_mismatch:
  "length e1 \<noteq> length e2 \<Longrightarrow>
     similarity ar (Some e1) (Some e2) = Inl ''Embeddings must have the same dimensions''"
  by (simp add: similarity_def)

text \<open>
  C6. The claim: two present vectors of the same length give the cosine similarity
  clamped to \<open>[0, 1]\<close>, and the source says so (\<open>Clamp between 0 and 1\<close>). For the two
  vectors \<open>[0]\<close> and \<open>[0]\<close> the products and sums are \<open>0\<close>, the square roots are \<open>0\<close>,
  the quotient is \<open>0 / 0\<close>, which is \<open>NaN\<close>, and \<open>Math.min(1, NaN)\<close> and
  \<open>Math.max(0, NaN)\<close> are \<open>NaN\<close> again. So in every arithmetic with these six properties of
  the doubles (\<open>nan\<close> standing for the value of \<open>0 / 0\<close>) the call succeeds with that
  \<open>NaN\<close>, which is no number of \<open>[0, 1]\<close>.
\<close>

theorem similarity_of_zero_vectors:
  assumes "sim_mul ar (sim_zero ar) (sim_zero ar) = sim_zero ar"
    and "sim_add ar (sim_zero ar) (sim_zero ar) = sim_zero ar"
    and "sim_sqrt ar (sim_zero ar) = sim_zero ar"
    and "sim_div ar (sim_zero ar) (sim_zero ar) = nan"
    and "sim_min_1 ar nan = nan"
    and "sim_max_0 ar nan = nan"
  shows "similarity ar (Some [sim_zero ar]) (Some [sim_zero ar]) = Inr nan"
  using assms by (simp add: similarity_def)

theorem similarity_of_zero_vectors_witness:
  "sim_mul zero_nan_arithmetic Zero Zero = Zero \<and>
   sim_add zero_nan_arithmetic Zero Zero = Zero \<and>
   sim_sqrt zero_nan_arithmetic Zero = Zero \<and>
   sim_div zero_nan_arithmetic Zero Zero = NaN \<and>
   sim_min_1 zero_nan_arithmetic NaN = NaN \<and>
   sim_max_0 zero_nan_arithmetic NaN = NaN \<and>
   similarity zero_nan_arithmetic (Some [Zero]) (Some [Zero]) = Inr NaN"
  using similarity_of_zero_vectors [of zero_nan_arithmetic NaN]
  by (simp add: zero_nan_arithmetic_def)

section \<open>The long-running chat request: results\<close>

subsection \<open>The task id of the response (C10)\<close>

lemma handleLongRunningTask_ids:
  "(n8nWebhookUrl \<noteq> None \<and> n8nWebhookUrl \<noteq> Some [] \<longrightarrow>
      (\<exists>p. fst (snd (handleLongRunningTask n8nWebhookUrl message w)) = Inr p \<and>
           td_taskId (tp_data p) = None \<and>
           tp_taskId p =
             ''task_'' @ show_nat (clock_reads w (clock_calls w + 2)) @ ''_'' @
               random_reads w (random_calls w) \<and>
           tp_taskId p = fst (generateTaskId (w\<lparr>clock_calls := clock_calls w + 2\<rparr>))) \<and>
      cr_taskId (fst (handleLongRunningTask n8nWebhookUrl message w)) =
        ''task_'' @ show_nat (clock_reads w (clock_calls w + 3)) @ ''_'' @
          random_reads w (random_calls w + 1) \<and>
      cr_taskId (fst (handleLongRunningTask n8nWebhookUrl message w)) =
        fst (generateTaskId (w\<lparr>clock_calls := clock_calls w + 3,
                               random_calls := random_calls w + 1\<rparr>))) \<and>
   (n8nWebhookUrl = None \<or> n8nWebhookUrl = Some [] \<longrightarrow>
      fst (snd (handleLongRunningTask n8nWebhookUrl message w)) =
        Inl ''N8N webhook URL not configured'' \<and>
      cr_taskId (fst (handleLongRunningTask n8nWebhookUrl message w)) =
        ''task_'' @ show_nat (clock_reads w (clock_calls w + 1)) @ ''_'' @
          random_reads w (random_calls w) \<and>
      cr_taskId (fst (handleLongRunningTask n8nWebhookUrl message w)) =
        fst (generateTaskId (w\<lparr>clock_calls := clock_calls w + 1\<rparr>)))"
  by (auto simp: handleLongRunningTask_def triggerN8nTask_payload_def taskId_or_generate_def
        generateTaskId_def Date_now_def Math_random36_def Let_def numeral_2_eq_2 numeral_3_eq_3)


text \<open>
  C10. The task data built by \<open>handleLongRunningTask\<close> carries no \<open>taskId\<close>. When the
  webhook URL is configured, the payload posted to the workflow carries that task data
  and an id made by one call of the generator (the third clock reading and the first
  random value of the request), and the \<open>taskId\<close> of the response is made by a second
  call (the fourth clock reading and the second random value); when the URL is not
  configured nothing is triggered and the response still carries a generated id. In both
  cases the id of the response is a call of \<open>generateTaskId\<close> of its own, in the world the
  start of the background task left behind. And when the two random values differ
  (and are equally long, as two values of nine characters are), the id of the response is
  not the id the workflow was triggered with.
\<close>

theorem handleLongRunningTask_taskId:
  "(n8nWebhookUrl \<noteq> None \<and> n8nWebhookUrl \<noteq> Some [] \<longrightarrow>
      (\<exists>p. fst (snd (handleLongRunningTask n8nWebhookUrl message w)) = Inr p \<and>
           td_taskId (tp_data p) = None \<and>
           tp_taskId p =
             ''task_'' @ show_nat (clock_reads w (clock_calls w + 2)) @ ''_'' @
               random_reads w (random_calls w) \<and>
           tp_taskId p = fst (generateTaskId (w\<lparr>clock_calls := clock_calls w + 2\<rparr>))) \<and>
      cr_taskId (fst (handleLongRunningTask n8nWebhookUrl message w)) =
        ''task_'' @ show_nat (clock_reads w (clock_calls w + 3)) @ ''_'' @
          random_reads w (random_calls w + 1) \<and>
      cr_taskId (fst (handleLongRunningTask n8nWebhookUrl message w)) =
        fst (generateTaskId (w\<lparr>clock_calls := clock_calls w + 3,
                               random_calls := random_calls w + 1\<rparr>))) \<and>
   (n8nWebhookUrl = None \<or> n8nWebhookUrl = Some [] \<longrightarrow>
      fst (snd (handleLongRunningTask n8nWebhookUrl message w)) =
        Inl ''N8N webhook URL not configured'' \<and>
      cr_taskId (fst (handleLongRunningTask n8nWebhookUrl message w)) =
        ''task_'' @ show_nat (clock_reads w (clock_calls w + 1)) @ ''_'' @
          random_reads w (random_calls w) \<and>
      cr_taskId (fst (handleLongRunningTask n8nWebhookUrl message w)) =
        fst (generateTaskId (w\<lparr>clock_calls := clock_calls w + 1\<rparr>))) \<and>
   (\<forall>p. fst (snd (handleLongRunningTask n8nWebhookUrl message w)) = Inr p \<longrightarrow>
      length (random_reads w (random_calls w)) = length (random_reads w (random_calls w + 1)) \<longrightarrow>
      random_reads w (random_calls w) \<noteq> random_reads w (random_calls w + 1) \<longrightarrow>
      cr_taskId (fst (handleLongRunningTask n8nWebhookUrl message w)) \<noteq> tp_taskId p)"
proof -
  note ids = handleLongRunningTask_ids [of n8nWebhookUrl message w]
  have "cr_taskId (fst (handleLongRunningTask n8nWebhookUrl message w)) \<noteq> tp_taskId p"
    if p: "fst (snd (handleLongRunningTask n8nWebhookUrl message w)) = Inr p"
      and len: "length (random_reads w (random_calls w)) =
                length (random_reads w (random_calls w + 1))"
      and ne: "random_reads w (random_calls w) \<noteq> random_reads w (random_calls w + 1)"
    for p
  proof -
    from p ids have conf: "n8nWebhookUrl \<noteq> None \<and> n8nWebhookUrl \<noteq> Some []"
      by auto
    with ids p have
      t: "tp_taskId p = (''task_'' @ show_nat (clock_reads w (clock_calls w + 2)) @ ''_'') @
               random_reads w (random_calls w)"
      and r: "cr_taskId (fst (handleLongRunningTask n8nWebhookUrl message w)) =
          (''task_'' @ show_nat (clock_reads w (clock_calls w + 3)) @ ''_'') @
            random_reads w (random_calls w + 1)"
      by auto
    show ?thesis
    proof
      assume "cr_taskId (fst (handleLongRunningTask n8nWebhookUrl message w)) = tp_taskId p"
      then have eq: "(''task_'' @ show_nat (clock_reads w (clock_calls w + 3)) @ ''_'') @
            random_reads w (random_calls w + 1) =
          (''task_'' @ show_nat (clock_reads w (clock_calls w + 2)) @ ''_'') @
               random_reads w (random_calls w)"
        by (simp only: t r)
      from len have "length (random_reads w (random_calls w + 1)) =
                     length (random_reads w (random_calls w))"
        by (rule sym)
      from append_eq_append_conv[OF disjI2[OF this]] eq
      have "random_reads w (random_calls w + 1) = random_reads w (random_calls w)"
        by blast
      with ne show False by simp
    qed
  qed
  with ids show ?thesis by blast
qed

text \<open>A request at time 1700000000000 with the random values \<open>abc\<close> and \<open>xyz\<close>: the workflow
  is triggered as \<open>task_1700000000000_abc\<close> and the client is told
  \<open>task_1700000000000_xyz\<close>.\<close>

lemma show_nat_1700000000000: "show_nat 1700000000000 = ''1700000000000''"
  by (simp add: show_nat.simps)

theorem handleLongRunningTask_taskId_witness:
  "Some ''http://localhost:5678/webhook/trigger-task'' \<noteq> None \<and>
   Some ''http://localhost:5678/webhook/trigger-task'' \<noteq> Some [] \<and>
   cr_taskId (fst (handleLongRunningTask (Some ''http://localhost:5678/webhook/trigger-task'')
      ''summarise the report''
      \<lparr>clock_reads = (\<lambda>i. 1700000000000), clock_calls = 0,
       random_reads = (\<lambda>i. if i = 0 then ''abc'' else ''xyz''), random_calls = 0\<rparr>)) =
     ''task_1700000000000_xyz''"
  using handleLongRunningTask_taskId
     [of "Some ''http://localhost:5678/webhook/trigger-task''" "''summarise the report''"
         "\<lparr>clock_reads = (\<lambda>i. 1700000000000), clock_calls = 0,
           random_reads = (\<lambda>i. if i = 0 then ''abc'' else ''xyz''), random_calls = 0\<rparr>"]
  by (simp add: show_nat_1700000000000)

subsection \<open>The timeout of the polling loop (C4)\<close>










end
